theory Spec2Isabelle
  imports Complex_Main "HOL-Library.AList"
begin

text \<open>
  A model of the request gateway of \<open>frontend/src/lib/api.js\<close>: the module variable
  \<open>activeBaseUrl\<close>, \<open>makeUrl\<close>, \<open>extractMessage\<close>, \<open>request\<close> with its one-shot fallback,
  and the builders \<open>getInterpretation\<close> and \<open>sendChatMessage\<close>. The HTTP client is a
  parameter: a function from the requests issued to their outcomes.
\<close>

section \<open>JavaScript values\<close>

text \<open>
  A JavaScript string is a sequence of UTF-16 code units; a code unit is modelled by its
  number. \<open>lit\<close> embeds an ASCII literal of the source; the three literals of the source
  with Turkish letters list those code units by number.
\<close>

type_synonym jsstring = "nat list"

definition lit :: "string \<Rightarrow> jsstring" where
  "lit s = map of_char s"

text \<open>
  The values that cross the gateway: decoded JSON bodies, payloads and \<open>undefined\<close>.
  An object is the list of its own properties in insertion order. Numbers carry the real
  value of the double (a decoded JSON body holds no \<open>NaN\<close>).
\<close>

datatype jsval =
    JUndefined
  | JNull
  | JBool bool
  | JNum real
  | JStr jsstring
  | JArr "jsval list"
  | JObj "(jsstring \<times> jsval) list"

text \<open>\<open>ToBoolean\<close>: what \<open>!v\<close>, \<open>v || w\<close> and \<open>if (v)\<close> test.\<close>

fun truthy :: "jsval \<Rightarrow> bool" where
  "truthy JUndefined = False"
| "truthy JNull = False"
| "truthy (JBool b) = b"
| "truthy (JNum r) = (r \<noteq> 0)"
| "truthy (JStr s) = (s \<noteq> [])"
| "truthy (JArr xs) = True"
| "truthy (JObj kvs) = True"

text \<open>\<open>a || b\<close>\<close>

definition js_or :: "jsval \<Rightarrow> jsval \<Rightarrow> jsval" where
  "js_or a b = (if truthy a then a else b)"

text \<open>
  \<open>v?.k\<close> for the property names the source reads (\<open>error\<close>, \<open>message\<close>, \<open>detail\<close>,
  \<open>life_narrative\<close>, \<open>meta\<close>, \<open>life_legacy\<close>, \<open>archetype\<close>, \<open>text\<close>, \<open>cards\<close>, \<open>life\<close>,
  \<open>legacy\<close>, \<open>reply\<close>): \<open>undefined\<close> on \<open>null\<close> and \<open>undefined\<close>, the own property of an object, and
  \<open>undefined\<close> on a string, number, boolean or array, whose prototypes define none of
  these names.
\<close>

fun get_opt :: "jsval \<Rightarrow> jsstring \<Rightarrow> jsval" where
  "get_opt (JObj kvs) k = (case map_of kvs k of Some v \<Rightarrow> v | None \<Rightarrow> JUndefined)"
| "get_opt v k = JUndefined"

text \<open>What a rejected promise or a \<open>throw\<close> carries: \<open>Error v\<close> is what
  \<open>throw new Error(v)\<close> throws, kept as the value \<open>v\<close> given to the constructor
  (\<open>Error_message\<close> below gives its \<open>message\<close>); \<open>TypeError\<close> is the engine's error for a
  property read on \<open>null\<close> or \<open>undefined\<close>.\<close>

datatype js_error = Error jsval | TypeError

text \<open>
  \<open>ToString(v)\<close>, which \<open>new Error(v)\<close> applies to its argument. \<open>Number_toString\<close> stands
  for the engine's \<open>Number::toString\<close>. An array is joined with commas, \<open>null\<close> and
  \<open>undefined\<close> elements giving the empty string. An object is converted by
  \<open>Object.prototype.toString\<close>, unless it has an own property \<open>toString\<close>: in a decoded
  body that property is not callable, and the conversion throws a \<open>TypeError\<close>.
\<close>

fun ToString :: "(real \<Rightarrow> jsstring) \<Rightarrow> jsval \<Rightarrow> js_error + jsstring"
  and join_elements :: "(real \<Rightarrow> jsstring) \<Rightarrow> jsval list \<Rightarrow> js_error + jsstring"
where
  "ToString Number_toString JUndefined = Inr (lit ''undefined'')"
| "ToString Number_toString JNull = Inr (lit ''null'')"
| "ToString Number_toString (JBool b) = Inr (if b then lit ''true'' else lit ''false'')"
| "ToString Number_toString (JNum r) = Inr (Number_toString r)"
| "ToString Number_toString (JStr s) = Inr s"
| "ToString Number_toString (JArr xs) = join_elements Number_toString xs"
| "ToString Number_toString (JObj kvs) =
     (if map_of kvs (lit ''toString'') = None then Inr (lit ''[object Object]'')
      else Inl TypeError)"
| "join_elements Number_toString [] = Inr []"
| "join_elements Number_toString (x # xs) =
     (case (if x = JNull \<or> x = JUndefined then Inr [] else ToString Number_toString x) of
        Inl err \<Rightarrow> Inl err
      | Inr first \<Rightarrow>
          if xs = [] then Inr first
          else (case join_elements Number_toString xs of
                  Inl err \<Rightarrow> Inl err
                | Inr rest \<Rightarrow> Inr (first @ lit '','' @ rest)))"

text \<open>
  The \<open>message\<close> of \<open>new Error(v)\<close>: the constructor sets it to \<open>ToString(v)\<close> unless \<open>v\<close>
  is \<open>undefined\<close>, when the inherited empty message shows. \<open>Inl TypeError\<close>: the
  conversion throws, and that \<open>TypeError\<close> is thrown in place of the error.
\<close>

definition Error_message :: "(real \<Rightarrow> jsstring) \<Rightarrow> jsval \<Rightarrow> js_error + jsstring" where
  "Error_message Number_toString v =
     (if v = JUndefined then Inr [] else ToString Number_toString v)"

text \<open>\<open>v.k\<close> without optional chaining.\<close>

fun get_strict :: "jsval \<Rightarrow> jsstring \<Rightarrow> js_error + jsval" where
  "get_strict JUndefined k = Inl TypeError"
| "get_strict JNull k = Inl TypeError"
| "get_strict v k = Inr (get_opt v k)"

text \<open>Decimal digits of an array or string index, as a property name.\<close>

fun index_key :: "nat \<Rightarrow> jsstring" where
  "index_key n = (if n < 10 then [48 + n] else index_key (n div 10) @ [48 + n mod 10])"

text \<open>The own enumerable properties that an object spread \<open>{...v}\<close> copies.\<close>

fun own_props :: "jsval \<Rightarrow> (jsstring \<times> jsval) list" where
  "own_props (JObj kvs) = kvs"
| "own_props (JArr xs) = map (\<lambda>i. (index_key i, xs ! i)) [0..<length xs]"
| "own_props (JStr s) = map (\<lambda>i. (index_key i, JStr [s ! i])) [0..<length s]"
| "own_props v = []"

section \<open>String helpers of the source\<close>

definition startsWith :: "jsstring \<Rightarrow> jsstring \<Rightarrow> bool" where
  "startsWith s p = (take (length p) s = p)"

definition endsWith :: "jsstring \<Rightarrow> jsstring \<Rightarrow> bool" where
  "endsWith s p = (length p \<le> length s \<and> drop (length s - length p) s = p)"

text \<open>\<open>WhiteSpace\<close> and \<open>LineTerminator\<close> code units, which \<open>String.prototype.trim\<close> strips.\<close>

definition is_js_space :: "nat \<Rightarrow> bool" where
  "is_js_space c =
     (c \<in> {0x9, 0xA, 0xB, 0xC, 0xD, 0x20, 0xA0, 0x1680, 0x2028, 0x2029, 0x202F, 0x205F,
            0x3000, 0xFEFF} \<or> (0x2000 \<le> c \<and> c \<le> 0x200A))"

definition trim :: "jsstring \<Rightarrow> jsstring" where
  "trim s = rev (dropWhile is_js_space (rev (dropWhile is_js_space s)))"

text \<open>\<open>s.replace(/\/$/, "")\<close>: one trailing slash removed.\<close>

definition replace_trailing_slash :: "jsstring \<Rightarrow> jsstring" where
  "replace_trailing_slash s = (if endsWith s (lit ''/'') then butlast s else s)"

text \<open>
  \<open>/Network Error/i.test(s)\<close>. Without the \<open>u\<close> flag a code unit is canonicalized by
  \<open>toUpperCase\<close>, and never from 128 or above into ASCII; the pattern is ASCII, so only
  the ASCII letters of \<open>s\<close> need folding.
\<close>

definition canonicalize :: "nat \<Rightarrow> nat" where
  "canonicalize c = (if 97 \<le> c \<and> c \<le> 122 then c - 32 else c)"

primrec occurs_in :: "jsstring \<Rightarrow> jsstring \<Rightarrow> bool" where
  "occurs_in p [] = (p = [])"
| "occurs_in p (c # cs) = (startsWith (c # cs) p \<or> occurs_in p cs)"

definition test_Network_Error :: "jsstring \<Rightarrow> bool" where
  "test_Network_Error s =
     occurs_in (map canonicalize (lit ''Network Error'')) (map canonicalize s)"

section \<open>The request gateway (api.js)\<close>

definition LOCAL_DEFAULT_URL :: jsstring where
  "LOCAL_DEFAULT_URL = lit ''http://localhost:5000''"

definition REMOTE_FALLBACK_URL :: jsstring where
  "REMOTE_FALLBACK_URL = lit ''https://astrolog-ai.onrender.com''"

text \<open>
  \<open>initialBase\<close>: the environment's \<open>VITE_API_URL\<close> (\<open>None\<close> when it is not set), trimmed,
  or the local default when it is unset, empty or blank.
\<close>

definition initialBase :: "jsstring option \<Rightarrow> jsstring" where
  "initialBase env =
     (case env of
        None \<Rightarrow> LOCAL_DEFAULT_URL
      | Some v \<Rightarrow> if v \<noteq> [] \<and> trim v \<noteq> [] then trim v else LOCAL_DEFAULT_URL)"

definition makeUrl :: "jsstring \<Rightarrow> jsstring \<Rightarrow> jsstring" where
  "makeUrl base path =
     (if path = [] then base
      else if startsWith path (lit ''http://'') \<or> startsWith path (lit ''https://'') then path
      else
        let normalizedBase =
              (if endsWith base (lit ''/'') then take (length base - 1) base else base);
            normalizedPath = (if startsWith path (lit ''/'') then path else lit ''/'' @ path)
        in normalizedBase @ normalizedPath)"

text \<open>
  What \<open>axios\<close> hands back. A response has a status and a decoded body; a rejection is an
  \<open>AxiosError\<close>: its \<open>response\<close> is absent when no HTTP response was received, its \<open>code\<close>
  may be absent, its \<open>message\<close> is a string.
\<close>

record axios_response =
  resp_status :: int
  resp_data :: jsval

record axios_error =
  err_response :: "axios_response option"
  err_code :: "jsstring option"
  err_message :: jsstring

datatype axios_outcome = Resolved axios_response | Rejected axios_error

text \<open>The request configuration given to \<open>axios\<close>; the header and the timeout are the
  same constants in every call and are left out.\<close>

record axios_config =
  cfg_method :: jsstring
  cfg_url :: jsstring
  cfg_data :: jsval

text \<open>
  The world outside: the outcome of the \<open>n\<close>-th request the process issues (counting from
  0) with a given configuration.
\<close>

type_synonym network = "nat \<Rightarrow> axios_config \<Rightarrow> axios_outcome"

text \<open>
  The module's state: the variable \<open>activeBaseUrl\<close>, and the requests handed to \<open>axios\<close>
  so far, oldest first. Calls do not overlap: one call settles before the next starts
  (no parallel request execution). Console output is not modelled.
\<close>

record gateway =
  activeBaseUrl :: jsstring
  sent :: "axios_config list"

definition initial :: "jsstring option \<Rightarrow> gateway" where
  "initial env = \<lparr>activeBaseUrl = replace_trailing_slash (initialBase env), sent = []\<rparr>"

definition FALLBACK_MESSAGE :: jsstring where
  "FALLBACK_MESSAGE =
     [0x130] @ lit ''stek s'' @ [0x131] @ lit ''ras'' @ [0x131] @ lit ''nda bir sorun olu'' @
     [0x15F] @ lit ''tu. L'' @ [0xFC] @ lit ''tfen tekrar dene.''"

text \<open>\<open>error.response?.data\<close>\<close>

definition response_data :: "axios_error \<Rightarrow> jsval" where
  "response_data e = (case err_response e of None \<Rightarrow> JUndefined | Some r \<Rightarrow> resp_data r)"

text \<open>\<open>extractMessage\<close>; \<open>None\<close> is a \<open>null\<close> or \<open>undefined\<close> error.\<close>

definition extractMessage :: "axios_error option \<Rightarrow> jsval" where
  "extractMessage error =
     (let fallback = JStr FALLBACK_MESSAGE in
      case error of
        None \<Rightarrow> fallback
      | Some e \<Rightarrow>
          let responseMessage =
                js_or
                  (js_or (get_opt (response_data e) (lit ''error''))
                     (get_opt (response_data e) (lit ''message'')))
                  (get_opt (response_data e) (lit ''detail''))
          in if truthy responseMessage then responseMessage
             else js_or (JStr (err_message e)) fallback)"

definition isNetworkError :: "axios_error \<Rightarrow> bool" where
  "isNetworkError error =
     (err_response error = None \<and>
      (err_code error = Some (lit ''ERR_NETWORK'') \<or>
       err_message error = lit ''Network Error'' \<or>
       test_Network_Error (err_message error)))"

text \<open>The configuration of an attempt made in state \<open>s\<close> (lines 32 and 34 to 40): the
  URL is built from the active origin.\<close>

definition request_config :: "jsstring \<Rightarrow> jsstring \<Rightarrow> jsval \<Rightarrow> gateway \<Rightarrow> axios_config" where
  "request_config method path payload s =
     \<lparr>cfg_method = method, cfg_url = makeUrl (activeBaseUrl s) path, cfg_data = payload\<rparr>"

function request ::
  "network \<Rightarrow> jsstring \<Rightarrow> jsstring \<Rightarrow> jsval \<Rightarrow> nat \<Rightarrow> gateway \<Rightarrow> (js_error + jsval) \<times> gateway"
where
  "request net method path payload attempt s =
     (let config = request_config method path payload s;
          s1 = s\<lparr>sent := sent s @ [config]\<rparr>
      in case net (length (sent s)) config of
           Resolved response \<Rightarrow> (Inr (resp_data response), s1)
         | Rejected error \<Rightarrow>
             let canRetry =
                   (attempt = 0 \<and> isNetworkError error \<and> activeBaseUrl s1 = LOCAL_DEFAULT_URL)
             in if canRetry
                then request net method path payload (attempt + 1)
                       (s1\<lparr>activeBaseUrl := REMOTE_FALLBACK_URL\<rparr>)
                else if method = lit ''get'' \<and>
                        (case err_response error of
                           None \<Rightarrow> False
                         | Some r \<Rightarrow> resp_status r = 404)
                then (Inr JNull, s1)
                else (Inl (Error (extractMessage (Some error))), s1))"
  by pat_completeness auto
termination
  by (relation "measure (\<lambda>(net, method, path, payload, attempt, s). if attempt = 0 then 1 else 0)")
    auto

declare request.simps [simp del]

definition post :: "network \<Rightarrow> jsstring \<Rightarrow> jsval \<Rightarrow> gateway \<Rightarrow> (js_error + jsval) \<times> gateway" where
  "post net path payload s = request net (lit ''post'') path payload 0 s"

definition put :: "network \<Rightarrow> jsstring \<Rightarrow> jsval \<Rightarrow> gateway \<Rightarrow> (js_error + jsval) \<times> gateway" where
  "put net path payload s = request net (lit ''put'') path payload 0 s"

definition get :: "network \<Rightarrow> jsstring \<Rightarrow> gateway \<Rightarrow> (js_error + jsval) \<times> gateway" where
  "get net path s = request net (lit ''get'') path JUndefined 0 s"

text \<open>
  A process lifetime: the calls the application makes, one after another, each a method,
  a path and a payload. \<open>run\<close> lists the module's state after each call.
\<close>

type_synonym call = "jsstring \<times> jsstring \<times> jsval"

fun run :: "network \<Rightarrow> call list \<Rightarrow> gateway \<Rightarrow> gateway list" where
  "run net [] s = []"
| "run net ((method, path, payload) # cs) s =
     (let s' = snd (request net method path payload 0 s) in s' # run net cs s')"

section \<open>Domain request builders (api.js)\<close>

text \<open>\<open>buildLifeBundle(data, strategy = "primary")\<close>; an omitted \<open>strategy\<close> is \<open>undefined\<close>.\<close>

definition buildLifeBundle :: "jsval \<Rightarrow> jsval \<Rightarrow> jsval" where
  "buildLifeBundle data strategy =
     (let strategy' = (if strategy = JUndefined then JStr (lit ''primary'') else strategy);
          story = js_or (get_opt data (lit ''life_narrative'')) JNull;
          meta = js_or (get_opt data (lit ''meta'')) JNull;
          legacy =
            js_or
              (js_or (get_opt data (lit ''life_legacy''))
                 (get_opt (get_opt data (lit ''archetype'')) (lit ''life_narrative'')))
              JNull
      in JObj [(lit ''story'', story), (lit ''meta'', meta), (lit ''legacy'', legacy),
               (lit ''strategy'', strategy')])"

definition CARD_TITLE :: jsstring where
  "CARD_TITLE = lit ''Hayat Anlat'' @ [0x131] @ lit ''s'' @ [0x131]"

text \<open>The object literal \<open>fallbackCard\<close> of \<open>getInterpretation\<close>.\<close>

definition fallbackCard :: "jsval \<Rightarrow> jsval" where
  "fallbackCard legacyText =
     JObj [(lit ''title'', JStr CARD_TITLE),
           (lit ''narrative'', JObj [(lit ''main'', legacyText)]),
           (lit ''reasons'', JObj [(lit ''psychology'', JArr [])]),
           (lit ''actions'', JArr []),
           (lit ''tags'', JArr []),
           (lit ''confidence_label'', JStr (lit ''Dengeli''))]"

text \<open>\<open>legacyText\<close> of \<open>getInterpretation\<close> (line 114).\<close>

definition legacyText :: "jsval \<Rightarrow> jsval" where
  "legacyText data =
     js_or
       (js_or (get_opt (get_opt (buildLifeBundle data JUndefined) (lit ''legacy'')) (lit ''text''))
          (get_opt data (lit ''text'')))
       (JStr [])"

text \<open>
  \<open>getInterpretation\<close>. \<open>JSON_parse\<close> stands for the engine's \<open>JSON.parse\<close>: \<open>None\<close> when it
  throws a \<open>SyntaxError\<close>. \<open>prepareChart\<close> is lines 94 to 102: a string argument is parsed,
  and a parse failure leaves \<open>null\<close>.
\<close>

definition prepareChart :: "(jsstring \<Rightarrow> jsval option) \<Rightarrow> jsval \<Rightarrow> jsval" where
  "prepareChart JSON_parse chartData =
     (case chartData of
        JStr str \<Rightarrow> (case JSON_parse str of Some v \<Rightarrow> v | None \<Rightarrow> JNull)
      | _ \<Rightarrow> chartData)"

definition getInterpretation ::
  "(jsstring \<Rightarrow> jsval option) \<Rightarrow> network \<Rightarrow> jsval \<Rightarrow> gateway \<Rightarrow> (js_error + jsval) \<times> gateway"
where
  "getInterpretation JSON_parse net chartData s =
     (let preparedChart = prepareChart JSON_parse chartData
      in case post net (lit ''/interpretation'')
                (JObj [(lit ''chart'', preparedChart), (lit ''chart_data'', preparedChart)]) s of
           (Inl err, s') \<Rightarrow> (Inl err, s')
         | (Inr data, s') \<Rightarrow>
             let bundle = buildLifeBundle data JUndefined;
                 prepared = AList.update (lit ''life_bundle'') bundle (own_props data);
                 prepared' =
                   (if \<not> truthy (get_opt (get_opt data (lit ''cards'')) (lit ''life''))
                    then AList.update (lit ''cards'')
                           (JObj (AList.update (lit ''life'') (fallbackCard (legacyText data))
                                    (own_props (js_or (get_opt data (lit ''cards'')) (JObj [])))))
                           prepared
                    else prepared)
             in (Inr (JObj prepared'), s'))"

definition CHAT_APOLOGY :: jsstring where
  "CHAT_APOLOGY =
     [0xDC] @ lit ''zg'' @ [0xFC] @ lit ''n'' @ [0xFC] @ lit ''m, '' @ [0x15F] @
     lit ''u anda yan'' @ [0x131] @ lit ''t veremiyorum.''"

definition sendChatMessage ::
  "network \<Rightarrow> jsval \<Rightarrow> jsval \<Rightarrow> gateway \<Rightarrow> (js_error + jsval) \<times> gateway"
where
  "sendChatMessage net message chartData s =
     (case post net (lit ''/chat/message'')
             (JObj [(lit ''message'', message), (lit ''chart'', chartData)]) s of
        (Inr response, s') \<Rightarrow>
          (case get_strict response (lit ''reply'') of
             Inr reply \<Rightarrow> (Inr reply, s')
           | Inl err \<Rightarrow> (Inr (JStr CHAT_APOLOGY), s'))
      | (Inl err, s') \<Rightarrow> (Inr (JStr CHAT_APOLOGY), s'))"

section \<open>Sample inputs\<close>

text \<open>A rejection with no response, as \<open>axios\<close> reports an unreachable host.\<close>

definition network_failure :: axios_error where
  "network_failure =
     \<lparr>err_response = None, err_code = Some (lit ''ERR_NETWORK''),
      err_message = lit ''Network Error''\<rparr>"

text \<open>A rejection that carries an HTTP response with the given status and body.\<close>

definition http_failure :: "int \<Rightarrow> jsval \<Rightarrow> axios_error" where
  "http_failure st body =
     \<lparr>err_response = Some \<lparr>resp_status = st, resp_data = body\<rparr>,
      err_code = Some (lit ''ERR_BAD_REQUEST''),
      err_message = lit ''Request failed''\<rparr>"

text \<open>A world in which no host can be reached.\<close>

definition unreachable :: network where
  "unreachable n config = Rejected network_failure"

text \<open>A world in which every request has the same outcome.\<close>

definition always :: "axios_outcome \<Rightarrow> network" where
  "always outcome n config = outcome"

text \<open>A world in which every host answers 404 with an empty object.\<close>

definition not_found :: network where
  "not_found n config = Rejected (http_failure 404 (JObj []))"

text \<open>A world in which only the hosted API answers, with the same outcome every time.\<close>

definition hosted_only :: "axios_outcome \<Rightarrow> network" where
  "hosted_only outcome n config =
     (if startsWith (cfg_url config) REMOTE_FALLBACK_URL then outcome
      else Rejected network_failure)"

text \<open>A 200 response with the given body.\<close>

definition ok :: "jsval \<Rightarrow> axios_outcome" where
  "ok body = Resolved \<lparr>resp_status = 200, resp_data = body\<rparr>"

text \<open>A number printer for the whole numbers from 0, which the engine prints in decimal
  digits (below \<open>10^21\<close>).\<close>

definition print_whole :: "real \<Rightarrow> jsstring" where
  "print_whole r = index_key (nat \<lfloor>r\<rfloor>)"

text \<open>A parser that accepts the text \<open>null\<close> only.\<close>

definition parse_null_only :: "jsstring \<Rightarrow> jsval option" where
  "parse_null_only str = (if str = lit ''null'' then Some JNull else None)"

section \<open>Literals\<close>

lemma lit_eq_iff [simp]: "lit a = lit b \<longleftrightarrow> a = b"
  unfolding lit_def by (rule inj_map_eq_map) (simp add: inj_on_def)

lemma lit_eq_Nil_iff [simp]: "lit a = [] \<longleftrightarrow> a = []"
  by (simp add: lit_def)

lemma Nil_eq_lit_iff [simp]: "[] = lit a \<longleftrightarrow> a = []"
  by (simp add: lit_def)

lemma lit_slash: "lit ''/'' = [47]"
  by (simp add: lit_def)

lemma startsWith_slash: "startsWith p [47] \<longleftrightarrow> (\<exists>r. p = 47 # r)"
  by (cases p) (auto simp: startsWith_def)

lemma urls_differ: "LOCAL_DEFAULT_URL \<noteq> REMOTE_FALLBACK_URL"
  by (simp add: LOCAL_DEFAULT_URL_def REMOTE_FALLBACK_URL_def)

lemma makeUrl_cases:
  "makeUrl base path =
     (if path = [] then base
      else if startsWith path (lit ''http://'') \<or> startsWith path (lit ''https://'') then path
      else (if endsWith base (lit ''/'') then butlast base else base) @ lit ''/'' @
           (if startsWith path (lit ''/'') then tl path else path))"
  by (auto simp: makeUrl_def Let_def butlast_conv_take startsWith_slash lit_slash)

lemma fallback_no_trailing_slash: "\<not> endsWith REMOTE_FALLBACK_URL (lit ''/'')"
  by (simp add: endsWith_def REMOTE_FALLBACK_URL_def lit_def)

section \<open>How one call unfolds\<close>

lemma request_config_sent [simp]:
  "request_config m p d (s\<lparr>sent := xs\<rparr>) = request_config m p d s"
  by (simp add: request_config_def)

lemma request_Resolved:
  assumes "net (length (sent s)) (request_config m p d s) = Resolved r"
  shows "request net m p d a s =
           (Inr (resp_data r), s\<lparr>sent := sent s @ [request_config m p d s]\<rparr>)"
  using assms by (subst request.simps) simp

lemma request_Rejected_final:
  assumes "net (length (sent s)) (request_config m p d s) = Rejected e"
    and "\<not> (a = 0 \<and> isNetworkError e \<and> activeBaseUrl s = LOCAL_DEFAULT_URL)"
  shows "request net m p d a s =
           (if m = lit ''get'' \<and>
               (case err_response e of None \<Rightarrow> False | Some r \<Rightarrow> resp_status r = 404)
            then Inr JNull else Inl (Error (extractMessage (Some e))),
            s\<lparr>sent := sent s @ [request_config m p d s]\<rparr>)"
  using assms by (subst request.simps) (auto simp: Let_def)

lemma request_Rejected_retry:
  assumes "net (length (sent s)) (request_config m p d s) = Rejected e"
    and "isNetworkError e" and "activeBaseUrl s = LOCAL_DEFAULT_URL"
  shows "request net m p d 0 s =
           request net m p d 1
             (s\<lparr>sent := sent s @ [request_config m p d s],
                activeBaseUrl := REMOTE_FALLBACK_URL\<rparr>)"
  using assms by (subst request.simps) (simp add: Let_def)

text \<open>A call that cannot retry makes one attempt and settles with its outcome.\<close>

lemma request_no_retry:
  assumes "a \<noteq> 0 \<or> activeBaseUrl s \<noteq> LOCAL_DEFAULT_URL"
  shows "request net m p d a s =
           (case net (length (sent s)) (request_config m p d s) of
              Resolved r \<Rightarrow> Inr (resp_data r)
            | Rejected e \<Rightarrow>
                if m = lit ''get'' \<and>
                   (case err_response e of None \<Rightarrow> False | Some r \<Rightarrow> resp_status r = 404)
                then Inr JNull else Inl (Error (extractMessage (Some e))),
            s\<lparr>sent := sent s @ [request_config m p d s]\<rparr>)"
proof (cases "net (length (sent s)) (request_config m p d s)")
  case (Resolved r)
  then show ?thesis by (simp add: request_Resolved)
next
  case (Rejected e)
  with assms show ?thesis by (auto simp: request_Rejected_final)
qed

text \<open>A call that retries settles with the outcome of the second attempt.\<close>

lemma request_retry:
  assumes "net (length (sent s)) (request_config m p d s) = Rejected e"
    and "isNetworkError e" and "activeBaseUrl s = LOCAL_DEFAULT_URL"
  shows "request net m p d 0 s =
           (case net (Suc (length (sent s)))
                   (request_config m p d (s\<lparr>activeBaseUrl := REMOTE_FALLBACK_URL\<rparr>)) of
              Resolved r \<Rightarrow> Inr (resp_data r)
            | Rejected e' \<Rightarrow>
                if m = lit ''get'' \<and>
                   (case err_response e' of None \<Rightarrow> False | Some r \<Rightarrow> resp_status r = 404)
                then Inr JNull else Inl (Error (extractMessage (Some e'))),
            s\<lparr>activeBaseUrl := REMOTE_FALLBACK_URL,
              sent := sent s @
                [request_config m p d s,
                 request_config m p d (s\<lparr>activeBaseUrl := REMOTE_FALLBACK_URL\<rparr>)]\<rparr>)"
proof -
  let ?s2 = "s\<lparr>sent := sent s @ [request_config m p d s],
               activeBaseUrl := REMOTE_FALLBACK_URL\<rparr>"
  have cfg: "request_config m p d ?s2 =
               request_config m p d (s\<lparr>activeBaseUrl := REMOTE_FALLBACK_URL\<rparr>)"
    by (simp add: request_config_def)
  have "request net m p d 0 s = request net m p d 1 ?s2"
    using assms by (rule request_Rejected_retry)
  also have "\<dots> =
      (case net (length (sent ?s2)) (request_config m p d ?s2) of
         Resolved r \<Rightarrow> Inr (resp_data r)
       | Rejected e' \<Rightarrow>
           if m = lit ''get'' \<and>
              (case err_response e' of None \<Rightarrow> False | Some r \<Rightarrow> resp_status r = 404)
           then Inr JNull else Inl (Error (extractMessage (Some e'))),
       ?s2\<lparr>sent := sent ?s2 @ [request_config m p d ?s2]\<rparr>)"
    by (rule request_no_retry) simp
  finally show ?thesis by (simp add: cfg)
qed

text \<open>Every call is of one of these two kinds.\<close>

lemma request_cases:
  obtains (direct)
      "request net m p d a s =
         (case net (length (sent s)) (request_config m p d s) of
            Resolved r \<Rightarrow> Inr (resp_data r)
          | Rejected e \<Rightarrow>
              if m = lit ''get'' \<and>
                 (case err_response e of None \<Rightarrow> False | Some r \<Rightarrow> resp_status r = 404)
              then Inr JNull else Inl (Error (extractMessage (Some e))),
          s\<lparr>sent := sent s @ [request_config m p d s]\<rparr>)"
      "\<not> (a = 0 \<and> activeBaseUrl s = LOCAL_DEFAULT_URL \<and>
          (\<exists>e. net (length (sent s)) (request_config m p d s) = Rejected e \<and>
               isNetworkError e))"
  | (retried) e where
      "a = 0" "activeBaseUrl s = LOCAL_DEFAULT_URL"
      "net (length (sent s)) (request_config m p d s) = Rejected e" "isNetworkError e"
      "request net m p d a s =
         (case net (Suc (length (sent s)))
                 (request_config m p d (s\<lparr>activeBaseUrl := REMOTE_FALLBACK_URL\<rparr>)) of
            Resolved r \<Rightarrow> Inr (resp_data r)
          | Rejected e' \<Rightarrow>
              if m = lit ''get'' \<and>
                 (case err_response e' of None \<Rightarrow> False | Some r \<Rightarrow> resp_status r = 404)
              then Inr JNull else Inl (Error (extractMessage (Some e'))),
          s\<lparr>activeBaseUrl := REMOTE_FALLBACK_URL,
            sent := sent s @
              [request_config m p d s,
               request_config m p d (s\<lparr>activeBaseUrl := REMOTE_FALLBACK_URL\<rparr>)]\<rparr>)"
proof (cases "a = 0 \<and> activeBaseUrl s = LOCAL_DEFAULT_URL")
  case False
  then have "a \<noteq> 0 \<or> activeBaseUrl s \<noteq> LOCAL_DEFAULT_URL" by simp
  from request_no_retry [OF this] False show ?thesis by (rule_tac direct) auto
next
  case True
  show ?thesis
  proof (cases "net (length (sent s)) (request_config m p d s)")
    case (Resolved r)
    then show ?thesis
      by (rule_tac direct) (simp_all add: request_Resolved)
  next
    case (Rejected e)
    show ?thesis
    proof (cases "isNetworkError e")
      case True
      with \<open>a = 0 \<and> activeBaseUrl s = LOCAL_DEFAULT_URL\<close> Rejected show ?thesis
        by (rule_tac retried [of e]) (simp_all add: request_retry)
    next
      case False
      with Rejected show ?thesis
        by (rule_tac direct) (simp_all add: request_Rejected_final)
    qed
  qed
qed

lemma request_first_sent:
  "sent (snd (request net m p d a s)) ! length (sent s) = request_config m p d s"
  by (cases rule: request_cases [of net m p d a s]) (simp_all add: nth_append)

lemma request_attempts:
  "length (sent (snd (request net m p d a s))) = length (sent s) + 1 \<or>
   length (sent (snd (request net m p d a s))) = length (sent s) + 2"
  by (cases rule: request_cases [of net m p d a s]) simp_all

lemma request_activeBaseUrl:
  "activeBaseUrl (snd (request net m p d a s)) = activeBaseUrl s \<or>
   (a = 0 \<and> activeBaseUrl s = LOCAL_DEFAULT_URL \<and>
    activeBaseUrl (snd (request net m p d a s)) = REMOTE_FALLBACK_URL)"
  by (cases rule: request_cases [of net m p d a s]) simp_all

section \<open>Evaluation on the sample inputs\<close>

lemma isNetworkError_network_failure: "isNetworkError network_failure"
  by (simp add: isNetworkError_def network_failure_def)

lemma not_isNetworkError_http_failure: "\<not> isNetworkError (http_failure st body)"
  by (simp add: isNetworkError_def http_failure_def)

lemma extractMessage_network_failure:
  "extractMessage (Some network_failure) = JStr (lit ''Network Error'')"
  by (simp add: extractMessage_def response_data_def network_failure_def js_or_def Let_def)

lemma initial_None: "initial None = \<lparr>activeBaseUrl = LOCAL_DEFAULT_URL, sent = []\<rparr>"
  by (simp add: initial_def initialBase_def replace_trailing_slash_def endsWith_def
      LOCAL_DEFAULT_URL_def lit_def)

lemma trim_8000: "trim (lit ''http://localhost:8000'') = lit ''http://localhost:8000''"
  by (simp add: trim_def is_js_space_def lit_def)

lemma initial_8000:
  "initial (Some (lit ''http://localhost:8000'')) =
     \<lparr>activeBaseUrl = lit ''http://localhost:8000'', sent = []\<rparr>"
  by (simp add: initial_def initialBase_def trim_8000 replace_trailing_slash_def endsWith_def)
    (simp add: lit_def)

lemma makeUrl_8000:
  "makeUrl (lit ''http://localhost:8000'') (lit ''/natal-chart'') =
     lit ''http://localhost:8000/natal-chart''"
  by (simp add: makeUrl_def startsWith_def endsWith_def lit_def)

lemma makeUrl_local:
  "makeUrl LOCAL_DEFAULT_URL (lit ''/natal-chart'') = lit ''http://localhost:5000/natal-chart''"
  by (simp add: makeUrl_def startsWith_def endsWith_def LOCAL_DEFAULT_URL_def lit_def)

lemma makeUrl_remote:
  "makeUrl REMOTE_FALLBACK_URL (lit ''/natal-chart'') =
     lit ''https://astrolog-ai.onrender.com/natal-chart''"
  by (simp add: makeUrl_def startsWith_def endsWith_def REMOTE_FALLBACK_URL_def lit_def)

lemma startsWith_remote:
  "startsWith (lit ''https://astrolog-ai.onrender.com/natal-chart'') REMOTE_FALLBACK_URL"
  "\<not> startsWith (lit ''http://localhost:5000/natal-chart'') REMOTE_FALLBACK_URL"
  by (simp_all add: startsWith_def REMOTE_FALLBACK_URL_def lit_def)

lemma makeUrl_slash_path:
  "\<not> endsWith base (lit ''/'') \<Longrightarrow> makeUrl base (47 # r) = base @ 47 # r"
  by (simp add: makeUrl_def startsWith_def lit_def)

lemma local_no_trailing_slash: "\<not> endsWith LOCAL_DEFAULT_URL (lit ''/'')"
  by (simp add: endsWith_def LOCAL_DEFAULT_URL_def lit_def)

lemma startsWith_remote_append: "startsWith (REMOTE_FALLBACK_URL @ p) REMOTE_FALLBACK_URL"
  by (simp add: startsWith_def)

lemma not_startsWith_local_append: "\<not> startsWith (LOCAL_DEFAULT_URL @ p) REMOTE_FALLBACK_URL"
  by (simp add: startsWith_def LOCAL_DEFAULT_URL_def REMOTE_FALLBACK_URL_def lit_def)

lemma profile_path: "lit ''/api/profile'' = 47 # lit ''api/profile''"
  by (simp add: lit_def)

lemma extractMessage_http_failure_empty:
  "extractMessage (Some (http_failure st (JObj []))) = JStr (lit ''Request failed'')"
  by (simp add: extractMessage_def response_data_def http_failure_def js_or_def Let_def)


section \<open>The fallback from the local default\<close>

text \<open>
  C1, as stated: every call whose first attempt at the primary origin fails with a
  network-level failure switches the active origin to the fallback and retries the same
  request there once. This fails when the primary origin comes from the configuration:
  with \<open>VITE_API_URL = http://localhost:8000\<close> and no host reachable, one request is
  issued, the active origin stays as configured, and the call throws.
\<close>

theorem configured_origin_not_retried:
  "unreachable 0
     (request_config (lit ''post'') (lit ''/natal-chart'') JNull
        (initial (Some (lit ''http://localhost:8000'')))) = Rejected network_failure \<and>
   isNetworkError network_failure \<and>
   request unreachable (lit ''post'') (lit ''/natal-chart'') JNull 0
       (initial (Some (lit ''http://localhost:8000''))) =
     (Inl (Error (JStr (lit ''Network Error''))),
      \<lparr>activeBaseUrl = lit ''http://localhost:8000'',
       sent = [\<lparr>cfg_method = lit ''post'',
                cfg_url = lit ''http://localhost:8000/natal-chart'',
                cfg_data = JNull\<rparr>]\<rparr>)"
proof -
  have "activeBaseUrl (initial (Some (lit ''http://localhost:8000''))) \<noteq> LOCAL_DEFAULT_URL"
    by (simp add: initial_8000 LOCAL_DEFAULT_URL_def)
  then have "(0::nat) \<noteq> 0 \<or>
      activeBaseUrl (initial (Some (lit ''http://localhost:8000''))) \<noteq> LOCAL_DEFAULT_URL"
    by simp
  from request_no_retry [OF this] show ?thesis
    by (simp add: unreachable_def isNetworkError_network_failure
        extractMessage_network_failure)
      (simp add: initial_8000 request_config_def makeUrl_8000 network_failure_def)
qed

text \<open>
  C1, amended: a call whose first attempt is rejected with a network-level failure while
  the active origin equals the hardcoded local default \<open>http://localhost:5000\<close> sets
  the active origin to the fallback and issues the same request (method,
  path, payload) exactly once more, with the URL rebuilt from the fallback origin; the
  call settles with the outcome of that second attempt. For a non-empty path that is not
  absolute, the rebuilt URL is the fallback origin, a slash, and the path without its
  leading slash.
\<close>

theorem request_falls_back_once:
  assumes "activeBaseUrl s = LOCAL_DEFAULT_URL"
    and "net (length (sent s)) (request_config method path payload s) = Rejected e"
    and "isNetworkError e"
  shows "activeBaseUrl (snd (request net method path payload 0 s)) = REMOTE_FALLBACK_URL \<and>
         sent (snd (request net method path payload 0 s)) =
           sent s @
           [\<lparr>cfg_method = method, cfg_url = makeUrl LOCAL_DEFAULT_URL path,
              cfg_data = payload\<rparr>,
            \<lparr>cfg_method = method, cfg_url = makeUrl REMOTE_FALLBACK_URL path,
              cfg_data = payload\<rparr>] \<and>
         fst (request net method path payload 0 s) =
           (case net (Suc (length (sent s)))
                   \<lparr>cfg_method = method, cfg_url = makeUrl REMOTE_FALLBACK_URL path,
                      cfg_data = payload\<rparr> of
              Resolved r \<Rightarrow> Inr (resp_data r)
            | Rejected e' \<Rightarrow>
                if method = lit ''get'' \<and>
                   (case err_response e' of None \<Rightarrow> False | Some r \<Rightarrow> resp_status r = 404)
                then Inr JNull else Inl (Error (extractMessage (Some e')))) \<and>
         (path \<noteq> [] \<and> \<not> startsWith path (lit ''http://'') \<and>
          \<not> startsWith path (lit ''https://'') \<longrightarrow>
            makeUrl REMOTE_FALLBACK_URL path =
              REMOTE_FALLBACK_URL @ lit ''/'' @
              (if startsWith path (lit ''/'') then tl path else path))"
proof -
  have "makeUrl REMOTE_FALLBACK_URL path =
          REMOTE_FALLBACK_URL @ lit ''/'' @
          (if startsWith path (lit ''/'') then tl path else path)"
    if "path \<noteq> []" "\<not> startsWith path (lit ''http://'')"
      "\<not> startsWith path (lit ''https://'')"
    using that by (simp add: makeUrl_cases [of REMOTE_FALLBACK_URL] fallback_no_trailing_slash)
  moreover have "request net method path payload 0 s =
      (case net (Suc (length (sent s)))
              (request_config method path payload (s\<lparr>activeBaseUrl := REMOTE_FALLBACK_URL\<rparr>)) of
         Resolved r \<Rightarrow> Inr (resp_data r)
       | Rejected e' \<Rightarrow>
           if method = lit ''get'' \<and>
              (case err_response e' of None \<Rightarrow> False | Some r \<Rightarrow> resp_status r = 404)
           then Inr JNull else Inl (Error (extractMessage (Some e'))),
       s\<lparr>activeBaseUrl := REMOTE_FALLBACK_URL,
         sent := sent s @
           [request_config method path payload s,
            request_config method path payload
              (s\<lparr>activeBaseUrl := REMOTE_FALLBACK_URL\<rparr>)]\<rparr>)"
    using assms by (intro request_retry)
  ultimately show ?thesis
    by (simp add: request_config_def assms(1))
qed

theorem request_falls_back_once_witness:
  "activeBaseUrl
     (snd (request (hosted_only (ok (JObj []))) (lit ''post'') (lit ''/natal-chart'') JNull 0
             (initial None))) = REMOTE_FALLBACK_URL \<and>
   sent (snd (request (hosted_only (ok (JObj []))) (lit ''post'') (lit ''/natal-chart'') JNull 0
                (initial None))) =
     [\<lparr>cfg_method = lit ''post'', cfg_url = lit ''http://localhost:5000/natal-chart'',
        cfg_data = JNull\<rparr>,
      \<lparr>cfg_method = lit ''post'',
        cfg_url = lit ''https://astrolog-ai.onrender.com/natal-chart'', cfg_data = JNull\<rparr>] \<and>
   fst (request (hosted_only (ok (JObj []))) (lit ''post'') (lit ''/natal-chart'') JNull 0
          (initial None)) = Inr (JObj [])"
proof -
  have h1: "activeBaseUrl (initial None) = LOCAL_DEFAULT_URL"
    by (simp add: initial_None)
  have h2: "hosted_only (ok (JObj [])) (length (sent (initial None)))
              (request_config (lit ''post'') (lit ''/natal-chart'') JNull (initial None)) =
            Rejected network_failure"
    by (simp add: hosted_only_def request_config_def initial_None makeUrl_local
        startsWith_remote)
  from request_falls_back_once
      [of "initial None" "hosted_only (ok (JObj []))" "lit ''post''" "lit ''/natal-chart''" JNull
        network_failure]
    h1 h2 isNetworkError_network_failure
  show ?thesis
    by (simp add: initial_None makeUrl_local makeUrl_remote hosted_only_def ok_def
        startsWith_remote)
qed

text \<open>
  C3: while the active origin differs from the hardcoded local default, a first attempt
  that fails at network level is not retried: the call issues that one request, leaves
  the active origin as it is, and throws the normalized error. Whenever a call changes
  the active origin, the origin was exactly the local default before (and the change
  happened on the first attempt).
\<close>

theorem no_fallback_from_other_origin:
  "(activeBaseUrl s \<noteq> LOCAL_DEFAULT_URL \<and>
    net (length (sent s)) (request_config method path payload s) = Rejected e \<and>
    isNetworkError e \<longrightarrow>
      request net method path payload 0 s =
        (Inl (Error (extractMessage (Some e))),
         s\<lparr>sent := sent s @ [request_config method path payload s]\<rparr>)) \<and>
   (activeBaseUrl (snd (request net method path payload attempt s)) \<noteq> activeBaseUrl s \<longrightarrow>
      activeBaseUrl s = LOCAL_DEFAULT_URL \<and> attempt = 0 \<and>
      activeBaseUrl (snd (request net method path payload attempt s)) = REMOTE_FALLBACK_URL)"
proof (intro conjI impI)
  assume a: "activeBaseUrl s \<noteq> LOCAL_DEFAULT_URL \<and>
    net (length (sent s)) (request_config method path payload s) = Rejected e \<and>
    isNetworkError e"
  then have "err_response e = None" by (simp add: isNetworkError_def)
  with a show "request net method path payload 0 s =
        (Inl (Error (extractMessage (Some e))),
         s\<lparr>sent := sent s @ [request_config method path payload s]\<rparr>)"
    by (simp add: request_Rejected_final)
next
  assume "activeBaseUrl (snd (request net method path payload attempt s)) \<noteq> activeBaseUrl s"
  with request_activeBaseUrl [of net "method" path payload attempt s]
  show "activeBaseUrl s = LOCAL_DEFAULT_URL" and "attempt = 0"
    and "activeBaseUrl (snd (request net method path payload attempt s)) = REMOTE_FALLBACK_URL"
    by auto
qed

theorem no_fallback_from_other_origin_witness:
  "request unreachable (lit ''post'') (lit ''/natal-chart'') JNull 0
       (initial (Some (lit ''http://localhost:8000''))) =
     (Inl (Error (JStr (lit ''Network Error''))),
      \<lparr>activeBaseUrl = lit ''http://localhost:8000'',
       sent = [\<lparr>cfg_method = lit ''post'',
                cfg_url = lit ''http://localhost:8000/natal-chart'',
                cfg_data = JNull\<rparr>]\<rparr>) \<and>
   activeBaseUrl (snd (request (hosted_only (ok (JObj []))) (lit ''post'') (lit ''/natal-chart'')
                         JNull 0 (initial None))) \<noteq> activeBaseUrl (initial None) \<and>
   activeBaseUrl (initial None) = LOCAL_DEFAULT_URL"
proof -
  have h1: "activeBaseUrl (initial (Some (lit ''http://localhost:8000''))) \<noteq> LOCAL_DEFAULT_URL"
    by (simp add: initial_8000 LOCAL_DEFAULT_URL_def)
  have h2: "unreachable (length (sent (initial (Some (lit ''http://localhost:8000'')))))
              (request_config (lit ''post'') (lit ''/natal-chart'') JNull
                 (initial (Some (lit ''http://localhost:8000'')))) = Rejected network_failure"
    by (simp add: unreachable_def)
  have first: "request unreachable (lit ''post'') (lit ''/natal-chart'') JNull 0
       (initial (Some (lit ''http://localhost:8000''))) =
     (Inl (Error (JStr (lit ''Network Error''))),
      \<lparr>activeBaseUrl = lit ''http://localhost:8000'',
       sent = [\<lparr>cfg_method = lit ''post'',
                cfg_url = lit ''http://localhost:8000/natal-chart'',
                cfg_data = JNull\<rparr>]\<rparr>)"
    using no_fallback_from_other_origin
      [of "initial (Some (lit ''http://localhost:8000''))" unreachable "lit ''post''"
        "lit ''/natal-chart''" JNull network_failure 0]
      h1 h2 isNetworkError_network_failure
    by (simp add: extractMessage_network_failure)
      (simp add: initial_8000 request_config_def makeUrl_8000)
  have h3: "hosted_only (ok (JObj [])) (length (sent (initial None)))
              (request_config (lit ''post'') (lit ''/natal-chart'') JNull (initial None)) =
            Rejected network_failure"
    by (simp add: hosted_only_def request_config_def initial_None makeUrl_local
        startsWith_remote)
  have "activeBaseUrl (snd (request (hosted_only (ok (JObj []))) (lit ''post'')
          (lit ''/natal-chart'') JNull 0 (initial None))) = REMOTE_FALLBACK_URL"
    using request_retry
      [of "hosted_only (ok (JObj []))" "initial None" "lit ''post''" "lit ''/natal-chart''" JNull
        network_failure]
      h3 isNetworkError_network_failure
    by (simp add: initial_None)
  then have second: "activeBaseUrl (snd (request (hosted_only (ok (JObj []))) (lit ''post'')
          (lit ''/natal-chart'') JNull 0 (initial None))) \<noteq> activeBaseUrl (initial None)"
    using urls_differ by (simp add: initial_None)
  from second no_fallback_from_other_origin
      [of "initial None" "hosted_only (ok (JObj []))" "lit ''post''" "lit ''/natal-chart''"
        JNull network_failure 0]
  have "activeBaseUrl (initial None) = LOCAL_DEFAULT_URL" by blast
  with first second show ?thesis by blast
qed


section \<open>Outcomes of a settled call\<close>

text \<open>
  C4: an attempt that \<open>axios\<close> rejects with an HTTP response of status 404 settles the
  call, whatever the attempt number: a \<open>get\<close> call returns \<open>null\<close> and does not throw, a
  \<open>post\<close> or \<open>put\<close> call throws the normalized error; one request was issued and the
  active origin is unchanged. The same holds when the 404 answers the retry that follows
  a network failure at the local default.
\<close>

theorem get_404_is_null_write_404_throws:
  "(net (length (sent s)) (request_config method path payload s) = Rejected e \<and>
    err_response e = Some r \<and> resp_status r = 404 \<longrightarrow>
      (method = lit ''get'' \<longrightarrow>
         request net method path payload attempt s =
           (Inr JNull, s\<lparr>sent := sent s @ [request_config method path payload s]\<rparr>)) \<and>
      (method = lit ''post'' \<or> method = lit ''put'' \<longrightarrow>
         request net method path payload attempt s =
           (Inl (Error (extractMessage (Some e))),
            s\<lparr>sent := sent s @ [request_config method path payload s]\<rparr>))) \<and>
   (activeBaseUrl s = LOCAL_DEFAULT_URL \<and>
    net (length (sent s)) (request_config method path payload s) = Rejected e1 \<and>
    isNetworkError e1 \<and>
    net (Suc (length (sent s)))
      (request_config method path payload (s\<lparr>activeBaseUrl := REMOTE_FALLBACK_URL\<rparr>)) =
      Rejected e \<and>
    err_response e = Some r \<and> resp_status r = 404 \<longrightarrow>
      (method = lit ''get'' \<longrightarrow> fst (request net method path payload 0 s) = Inr JNull) \<and>
      (method = lit ''post'' \<or> method = lit ''put'' \<longrightarrow>
         fst (request net method path payload 0 s) = Inl (Error (extractMessage (Some e)))))"
proof (intro conjI impI)
  assume a: "net (length (sent s)) (request_config method path payload s) = Rejected e \<and>
    err_response e = Some r \<and> resp_status r = 404"
  then have n: "\<not> (attempt = 0 \<and> isNetworkError e \<and> activeBaseUrl s = LOCAL_DEFAULT_URL)"
    by (simp add: isNetworkError_def)
  from a have rej: "net (length (sent s)) (request_config method path payload s) = Rejected e"
    by simp
  note final = request_Rejected_final [of net s "method" path payload e attempt, OF rej n]
  {
    assume "method = lit ''get''"
    with a final show "request net method path payload attempt s =
        (Inr JNull, s\<lparr>sent := sent s @ [request_config method path payload s]\<rparr>)"
      by simp
  }
  {
    assume "method = lit ''post'' \<or> method = lit ''put''"
    then have "method \<noteq> lit ''get''" by auto
    with final show "request net method path payload attempt s =
        (Inl (Error (extractMessage (Some e))),
         s\<lparr>sent := sent s @ [request_config method path payload s]\<rparr>)"
      by simp
  }
next
  assume a: "activeBaseUrl s = LOCAL_DEFAULT_URL \<and>
    net (length (sent s)) (request_config method path payload s) = Rejected e1 \<and>
    isNetworkError e1 \<and>
    net (Suc (length (sent s)))
      (request_config method path payload (s\<lparr>activeBaseUrl := REMOTE_FALLBACK_URL\<rparr>)) =
      Rejected e \<and>
    err_response e = Some r \<and> resp_status r = 404"
  note retry = request_retry [of net s "method" path payload e1]
  {
    assume "method = lit ''get''"
    with a retry show "fst (request net method path payload 0 s) = Inr JNull"
      by simp
  }
  {
    assume "method = lit ''post'' \<or> method = lit ''put''"
    then have "method \<noteq> lit ''get''" by auto
    with a retry
    show "fst (request net method path payload 0 s) = Inl (Error (extractMessage (Some e)))"
      by simp
  }
qed

theorem get_404_is_null_write_404_throws_witness:
  "fst (get not_found (lit ''/api/profile'') (initial None)) = Inr JNull \<and>
   fst (post not_found (lit ''/api/profile'') (JObj []) (initial None)) =
     Inl (Error (JStr (lit ''Request failed''))) \<and>
   fst (put not_found (lit ''/api/profile'') (JObj []) (initial None)) =
     Inl (Error (JStr (lit ''Request failed''))) \<and>
   fst (get (hosted_only (Rejected (http_failure 404 (JObj [])))) (lit ''/api/profile'')
          (initial None)) = Inr JNull"
proof -
  let ?net = "hosted_only (Rejected (http_failure 404 (JObj [])))"
  let ?r = "\<lparr>resp_status = 404, resp_data = JObj []\<rparr>"
  have e: "err_response (http_failure 404 (JObj [])) = Some ?r" "resp_status ?r = 404"
    by (simp_all add: http_failure_def)
  have direct: "not_found (length (sent (initial None)))
      (request_config m (lit ''/api/profile'') d (initial None)) =
      Rejected (http_failure 404 (JObj []))" for m d
    by (simp add: not_found_def)
  note t = get_404_is_null_write_404_throws [THEN conjunct1, rule_format]
  from t [of not_found "initial None" "lit ''get''" "lit ''/api/profile''" JUndefined
      "http_failure 404 (JObj [])" ?r 0] direct e
  have g: "fst (get not_found (lit ''/api/profile'') (initial None)) = Inr JNull"
    by (simp add: get_def)
  from t [of not_found "initial None" "lit ''post''" "lit ''/api/profile''" "JObj []"
      "http_failure 404 (JObj [])" ?r 0] direct e
  have po: "fst (post not_found (lit ''/api/profile'') (JObj []) (initial None)) =
      Inl (Error (JStr (lit ''Request failed'')))"
    by (simp add: post_def extractMessage_http_failure_empty)
  from t [of not_found "initial None" "lit ''put''" "lit ''/api/profile''" "JObj []"
      "http_failure 404 (JObj [])" ?r 0] direct e
  have pu: "fst (put not_found (lit ''/api/profile'') (JObj []) (initial None)) =
      Inl (Error (JStr (lit ''Request failed'')))"
    by (simp add: put_def extractMessage_http_failure_empty)
  have first: "?net (length (sent (initial None)))
      (request_config (lit ''get'') (lit ''/api/profile'') JUndefined (initial None)) =
      Rejected network_failure"
    by (simp add: hosted_only_def request_config_def initial_None profile_path
        makeUrl_slash_path local_no_trailing_slash not_startsWith_local_append)
  have second: "?net (Suc (length (sent (initial None))))
      (request_config (lit ''get'') (lit ''/api/profile'') JUndefined
         (initial None\<lparr>activeBaseUrl := REMOTE_FALLBACK_URL\<rparr>)) =
      Rejected (http_failure 404 (JObj []))"
    by (simp add: hosted_only_def request_config_def profile_path
        makeUrl_slash_path fallback_no_trailing_slash startsWith_remote_append)
  note t2 = get_404_is_null_write_404_throws [THEN conjunct2, rule_format]
  from t2 [of "initial None" ?net "lit ''get''" "lit ''/api/profile''" JUndefined
      network_failure "http_failure 404 (JObj [])" ?r]
    first second e isNetworkError_network_failure
  have r: "fst (get ?net (lit ''/api/profile'') (initial None)) = Inr JNull"
    by (simp add: get_def initial_None)
  from g po pu r show ?thesis by blast
qed

text \<open>
  C5, as stated: the thrown error carries a message string that is the body's \<open>error\<close>
  field if present, otherwise its \<open>message\<close> field, otherwise its \<open>detail\<close> field, and so
  on. This fails in two ways. A body \<open>{error: "", message: "Y"}\<close> has an \<open>error\<close> field,
  yet the call throws with \<open>Y\<close>: the source tests the fields with \<open>||\<close>. And a body
  whose only field is \<open>detail: [{msg: "field required"}]\<close> gives the message
  \<open>[object Object]\<close>, which is not the \<open>detail\<close> field: \<open>new Error\<close> converts its argument
  to a string.
\<close>

theorem present_field_skipped_or_converted:
  "map_of [(lit ''error'', JStr []), (lit ''message'', JStr (lit ''Y''))] (lit ''error'') =
     Some (JStr []) \<and>
   fst (post
          (always (Rejected (http_failure 400
             (JObj [(lit ''error'', JStr []), (lit ''message'', JStr (lit ''Y''))]))))
          (lit ''/api/profile'') (JObj []) (initial None)) =
     Inl (Error (JStr (lit ''Y''))) \<and>
   extractMessage
     (Some (http_failure 422
        (JObj [(lit ''detail'', JArr [JObj [(lit ''msg'', JStr (lit ''field required''))]])]))) =
     JArr [JObj [(lit ''msg'', JStr (lit ''field required''))]] \<and>
   Error_message print_whole (JArr [JObj [(lit ''msg'', JStr (lit ''field required''))]]) =
     Inr (lit ''[object Object]'')"
proof -
  let ?e = "http_failure 400
    (JObj [(lit ''error'', JStr []), (lit ''message'', JStr (lit ''Y''))])"
  have m: "extractMessage (Some ?e) = JStr (lit ''Y'')"
    by (simp add: extractMessage_def response_data_def http_failure_def js_or_def Let_def)
  have "request (always (Rejected ?e)) (lit ''post'') (lit ''/api/profile'') (JObj []) 0
      (initial None) =
      (Inl (Error (JStr (lit ''Y''))),
       initial None
         \<lparr>sent := sent (initial None) @
            [request_config (lit ''post'') (lit ''/api/profile'') (JObj []) (initial None)]\<rparr>)"
    by (subst request_Rejected_final [of _ _ _ _ _ ?e])
      (simp_all add: always_def not_isNetworkError_http_failure m)
  then have "fst (post (always (Rejected ?e)) (lit ''/api/profile'') (JObj []) (initial None)) =
      Inl (Error (JStr (lit ''Y'')))"
    by (simp add: post_def)
  moreover have "extractMessage
     (Some (http_failure 422
        (JObj [(lit ''detail'', JArr [JObj [(lit ''msg'', JStr (lit ''field required''))]])]))) =
     JArr [JObj [(lit ''msg'', JStr (lit ''field required''))]]"
    by (simp add: extractMessage_def response_data_def http_failure_def js_or_def Let_def)
  moreover have "Error_message print_whole
      (JArr [JObj [(lit ''msg'', JStr (lit ''field required''))]]) =
     Inr (lit ''[object Object]'')"
    by (simp add: Error_message_def)
  ultimately show ?thesis by simp
qed

text \<open>
  C5, amended: an error thrown by a call is \<open>new Error(v)\<close>, where \<open>v\<close> is what
  \<open>extractMessage\<close> returns for the rejection that settled the call (the first attempt's,
  or the retry's when the call retried). \<open>extractMessage\<close> picks, in this order: the body's
  \<open>error\<close> field if it is truthy, its \<open>message\<close> field if it is truthy, its \<open>detail\<close> field
  if it is truthy, the failure's own message if it is not empty, and the fixed fallback
  string. The error's message is \<open>ToString(v)\<close>: \<open>v\<close> itself when \<open>v\<close> is a string, as it
  always is in the last two cases.
\<close>

theorem thrown_error_precedence:
  "(fst (request net method path payload attempt s) = Inl err \<longrightarrow>
      (\<exists>e'. err = Error (extractMessage (Some e')) \<and>
         (net (length (sent s)) (request_config method path payload s) = Rejected e' \<and>
          \<not> (attempt = 0 \<and> isNetworkError e' \<and> activeBaseUrl s = LOCAL_DEFAULT_URL) \<or>
          attempt = 0 \<and> activeBaseUrl s = LOCAL_DEFAULT_URL \<and>
          (\<exists>e1. net (length (sent s)) (request_config method path payload s) = Rejected e1 \<and>
                isNetworkError e1) \<and>
          net (Suc (length (sent s)))
            (request_config method path payload
               (s\<lparr>activeBaseUrl := REMOTE_FALLBACK_URL\<rparr>)) = Rejected e'))) \<and>
   extractMessage (Some e) =
     (if truthy (get_opt (response_data e) (lit ''error''))
      then get_opt (response_data e) (lit ''error'')
      else if truthy (get_opt (response_data e) (lit ''message''))
      then get_opt (response_data e) (lit ''message'')
      else if truthy (get_opt (response_data e) (lit ''detail''))
      then get_opt (response_data e) (lit ''detail'')
      else if err_message e \<noteq> [] then JStr (err_message e)
      else JStr FALLBACK_MESSAGE) \<and>
   Error_message Number_toString (extractMessage (Some e)) =
     (if truthy (get_opt (response_data e) (lit ''error''))
      then ToString Number_toString (get_opt (response_data e) (lit ''error''))
      else if truthy (get_opt (response_data e) (lit ''message''))
      then ToString Number_toString (get_opt (response_data e) (lit ''message''))
      else if truthy (get_opt (response_data e) (lit ''detail''))
      then ToString Number_toString (get_opt (response_data e) (lit ''detail''))
      else if err_message e \<noteq> [] then Inr (err_message e)
      else Inr FALLBACK_MESSAGE) \<and>
   Error_message Number_toString (JStr str) = Inr str \<and>
   extractMessage None = JStr FALLBACK_MESSAGE"
proof (intro conjI impI)
  assume thrown: "fst (request net method path payload attempt s) = Inl err"
  show "\<exists>e'. err = Error (extractMessage (Some e')) \<and>
         (net (length (sent s)) (request_config method path payload s) = Rejected e' \<and>
          \<not> (attempt = 0 \<and> isNetworkError e' \<and> activeBaseUrl s = LOCAL_DEFAULT_URL) \<or>
          attempt = 0 \<and> activeBaseUrl s = LOCAL_DEFAULT_URL \<and>
          (\<exists>e1. net (length (sent s)) (request_config method path payload s) = Rejected e1 \<and>
                isNetworkError e1) \<and>
          net (Suc (length (sent s)))
            (request_config method path payload
               (s\<lparr>activeBaseUrl := REMOTE_FALLBACK_URL\<rparr>)) = Rejected e')"
  proof (cases rule: request_cases [of net "method" path payload attempt s])
    case direct
    with thrown show ?thesis
      by (auto split: axios_outcome.splits if_splits)
  next
    case (retried e1)
    with thrown show ?thesis
      by (auto split: axios_outcome.splits if_splits)
  qed
next
  show m: "extractMessage (Some e) =
     (if truthy (get_opt (response_data e) (lit ''error''))
      then get_opt (response_data e) (lit ''error'')
      else if truthy (get_opt (response_data e) (lit ''message''))
      then get_opt (response_data e) (lit ''message'')
      else if truthy (get_opt (response_data e) (lit ''detail''))
      then get_opt (response_data e) (lit ''detail'')
      else if err_message e \<noteq> [] then JStr (err_message e)
      else JStr FALLBACK_MESSAGE)"
    by (simp add: extractMessage_def js_or_def Let_def)
  have defined: "truthy v \<Longrightarrow> v \<noteq> JUndefined" for v
    by auto
  show "Error_message Number_toString (extractMessage (Some e)) =
     (if truthy (get_opt (response_data e) (lit ''error''))
      then ToString Number_toString (get_opt (response_data e) (lit ''error''))
      else if truthy (get_opt (response_data e) (lit ''message''))
      then ToString Number_toString (get_opt (response_data e) (lit ''message''))
      else if truthy (get_opt (response_data e) (lit ''detail''))
      then ToString Number_toString (get_opt (response_data e) (lit ''detail''))
      else if err_message e \<noteq> [] then Inr (err_message e)
      else Inr FALLBACK_MESSAGE)"
    unfolding m by (simp add: Error_message_def defined)
next
  show "Error_message Number_toString (JStr str) = Inr str"
    by (simp add: Error_message_def)
next
  show "extractMessage None = JStr FALLBACK_MESSAGE"
    by (simp add: extractMessage_def)
qed

theorem thrown_error_precedence_witness:
  "fst (post not_found (lit ''/api/profile'') (JObj []) (initial None)) =
     Inl (Error (JStr (lit ''Request failed''))) \<and>
   (\<exists>e'. Error (JStr (lit ''Request failed'')) = Error (extractMessage (Some e')) \<and>
         not_found (length (sent (initial None)))
           (request_config (lit ''post'') (lit ''/api/profile'') (JObj []) (initial None)) =
         Rejected e') \<and>
   extractMessage (Some (http_failure 400 (JObj [(lit ''error'', JStr (lit ''X''))]))) =
     JStr (lit ''X'') \<and>
   extractMessage
     (Some (http_failure 400
        (JObj [(lit ''message'', JStr (lit ''Y'')), (lit ''detail'', JStr (lit ''Z''))]))) =
     JStr (lit ''Y'') \<and>
   extractMessage (Some (http_failure 422 (JObj [(lit ''detail'', JStr (lit ''Z''))]))) =
     JStr (lit ''Z'') \<and>
   extractMessage (Some network_failure) = JStr (lit ''Network Error'') \<and>
   extractMessage (Some \<lparr>err_response = None, err_code = None, err_message = []\<rparr>) =
     JStr FALLBACK_MESSAGE \<and>
   Error_message print_whole
     (extractMessage (Some (http_failure 400 (JObj [(lit ''error'', JStr (lit ''X''))])))) =
     Inr (lit ''X'') \<and>
   Error_message print_whole
     (extractMessage (Some (http_failure 400 (JObj [(lit ''error'', JBool True)])))) =
     Inr (lit ''true'') \<and>
   Error_message print_whole
     (extractMessage
        (Some (http_failure 422
           (JObj [(lit ''detail'',
                   JArr [JObj [(lit ''msg'', JStr (lit ''a''))], JNull,
                         JStr (lit ''b'')])])))) =
     Inr (lit ''[object Object],,b'') \<and>
   Error_message print_whole
     (extractMessage
        (Some (http_failure 400 (JObj [(lit ''error'', JObj [(lit ''toString'', JNull)])])))) =
     Inl TypeError \<and>
   Error_message print_whole (extractMessage (Some network_failure)) =
     Inr (lit ''Network Error'')"
proof -
  have "request not_found (lit ''post'') (lit ''/api/profile'') (JObj []) 0 (initial None) =
      (Inl (Error (JStr (lit ''Request failed''))),
       initial None
         \<lparr>sent := sent (initial None) @
            [request_config (lit ''post'') (lit ''/api/profile'') (JObj []) (initial None)]\<rparr>)"
    by (subst request_Rejected_final [of _ _ _ _ _ "http_failure 404 (JObj [])"])
      (simp_all add: not_found_def not_isNetworkError_http_failure
        extractMessage_http_failure_empty)
  then have thrown: "fst (request not_found (lit ''post'') (lit ''/api/profile'') (JObj []) 0
      (initial None)) = Inl (Error (JStr (lit ''Request failed'')))"
    by simp
  note t = thrown_error_precedence
  from thrown
    t [of not_found "lit ''post''" "lit ''/api/profile''" "JObj []" 0 "initial None"
      "Error (JStr (lit ''Request failed''))", THEN conjunct1]
  have "\<exists>e'. Error (JStr (lit ''Request failed'')) = Error (extractMessage (Some e')) \<and>
      (not_found (length (sent (initial None)))
         (request_config (lit ''post'') (lit ''/api/profile'') (JObj []) (initial None)) =
       Rejected e' \<and>
       \<not> (0 = (0::nat) \<and> isNetworkError e' \<and>
          activeBaseUrl (initial None) = LOCAL_DEFAULT_URL) \<or>
       0 = (0::nat) \<and> activeBaseUrl (initial None) = LOCAL_DEFAULT_URL \<and>
       (\<exists>e1. not_found (length (sent (initial None)))
               (request_config (lit ''post'') (lit ''/api/profile'') (JObj [])
                  (initial None)) = Rejected e1 \<and>
             isNetworkError e1) \<and>
       not_found (Suc (length (sent (initial None))))
         (request_config (lit ''post'') (lit ''/api/profile'') (JObj [])
            (initial None\<lparr>activeBaseUrl := REMOTE_FALLBACK_URL\<rparr>)) = Rejected e')"
    by blast
  then have a: "\<exists>e'. Error (JStr (lit ''Request failed'')) = Error (extractMessage (Some e')) \<and>
         not_found (length (sent (initial None)))
           (request_config (lit ''post'') (lit ''/api/profile'') (JObj []) (initial None)) =
         Rejected e'"
    by (auto simp: not_found_def)
  note t2 = t [THEN conjunct2, THEN conjunct1]
  have b: "extractMessage (Some (http_failure 400 (JObj [(lit ''error'', JStr (lit ''X''))]))) =
      JStr (lit ''X'')"
    "extractMessage
      (Some (http_failure 400
         (JObj [(lit ''message'', JStr (lit ''Y'')), (lit ''detail'', JStr (lit ''Z''))]))) =
      JStr (lit ''Y'')"
    "extractMessage (Some (http_failure 422 (JObj [(lit ''detail'', JStr (lit ''Z''))]))) =
      JStr (lit ''Z'')"
    "extractMessage (Some network_failure) = JStr (lit ''Network Error'')"
    "extractMessage (Some \<lparr>err_response = None, err_code = None, err_message = []\<rparr>) =
      JStr FALLBACK_MESSAGE"
    by (simp_all add: t2 response_data_def http_failure_def network_failure_def)
  note t3 = t [THEN conjunct2, THEN conjunct2, THEN conjunct1]
  have c: "Error_message print_whole
     (extractMessage (Some (http_failure 400 (JObj [(lit ''error'', JStr (lit ''X''))])))) =
     Inr (lit ''X'')"
    "Error_message print_whole
     (extractMessage (Some (http_failure 400 (JObj [(lit ''error'', JBool True)])))) =
     Inr (lit ''true'')"
    "Error_message print_whole
     (extractMessage
        (Some (http_failure 422
           (JObj [(lit ''detail'',
                   JArr [JObj [(lit ''msg'', JStr (lit ''a''))], JNull,
                         JStr (lit ''b'')])])))) =
     Inr (lit ''[object Object],,b'')"
    "Error_message print_whole
     (extractMessage
        (Some (http_failure 400 (JObj [(lit ''error'', JObj [(lit ''toString'', JNull)])])))) =
     Inl TypeError"
    "Error_message print_whole (extractMessage (Some network_failure)) =
     Inr (lit ''Network Error'')"
    by (simp_all add: t3 response_data_def http_failure_def network_failure_def lit_def)
  from thrown a b c show ?thesis by (simp add: post_def)
qed


text \<open>
  C6: a call issues one request or two, never more. When the first attempt fails at
  network level from the local default and the retry against the fallback fails at
  network level too, the call throws the normalized error of the second failure, having
  issued exactly those two requests.
\<close>

theorem at_most_two_attempts:
  "(length (sent (snd (request net method path payload attempt s))) = length (sent s) + 1 \<or>
    length (sent (snd (request net method path payload attempt s))) = length (sent s) + 2) \<and>
   (activeBaseUrl s = LOCAL_DEFAULT_URL \<and>
    net (length (sent s)) (request_config method path payload s) = Rejected e1 \<and>
    isNetworkError e1 \<and>
    net (Suc (length (sent s)))
      (request_config method path payload (s\<lparr>activeBaseUrl := REMOTE_FALLBACK_URL\<rparr>)) =
      Rejected e2 \<and>
    isNetworkError e2 \<longrightarrow>
      request net method path payload 0 s =
        (Inl (Error (extractMessage (Some e2))),
         s\<lparr>activeBaseUrl := REMOTE_FALLBACK_URL,
           sent := sent s @
             [request_config method path payload s,
              request_config method path payload
                (s\<lparr>activeBaseUrl := REMOTE_FALLBACK_URL\<rparr>)]\<rparr>))"
proof (intro conjI impI)
  show "length (sent (snd (request net method path payload attempt s))) = length (sent s) + 1 \<or>
    length (sent (snd (request net method path payload attempt s))) = length (sent s) + 2"
    by (rule request_attempts)
next
  assume a: "activeBaseUrl s = LOCAL_DEFAULT_URL \<and>
    net (length (sent s)) (request_config method path payload s) = Rejected e1 \<and>
    isNetworkError e1 \<and>
    net (Suc (length (sent s)))
      (request_config method path payload (s\<lparr>activeBaseUrl := REMOTE_FALLBACK_URL\<rparr>)) =
      Rejected e2 \<and>
    isNetworkError e2"
  then have "err_response e2 = None" by (simp add: isNetworkError_def)
  with a request_retry [of net s "method" path payload e1]
  show "request net method path payload 0 s =
        (Inl (Error (extractMessage (Some e2))),
         s\<lparr>activeBaseUrl := REMOTE_FALLBACK_URL,
           sent := sent s @
             [request_config method path payload s,
              request_config method path payload
                (s\<lparr>activeBaseUrl := REMOTE_FALLBACK_URL\<rparr>)]\<rparr>)"
    by simp
qed

theorem at_most_two_attempts_witness:
  "request unreachable (lit ''post'') (lit ''/api/profile'') (JObj []) 0 (initial None) =
     (Inl (Error (JStr (lit ''Network Error''))),
      \<lparr>activeBaseUrl = REMOTE_FALLBACK_URL,
       sent = [\<lparr>cfg_method = lit ''post'', cfg_url = lit ''http://localhost:5000/api/profile'',
                 cfg_data = JObj []\<rparr>,
               \<lparr>cfg_method = lit ''post'',
                 cfg_url = lit ''https://astrolog-ai.onrender.com/api/profile'',
                 cfg_data = JObj []\<rparr>]\<rparr>)"
proof -
  have urls:
    "makeUrl LOCAL_DEFAULT_URL (lit ''/api/profile'') = lit ''http://localhost:5000/api/profile''"
    "makeUrl REMOTE_FALLBACK_URL (lit ''/api/profile'') =
       lit ''https://astrolog-ai.onrender.com/api/profile''"
    by (simp_all add: makeUrl_def startsWith_def endsWith_def LOCAL_DEFAULT_URL_def
        REMOTE_FALLBACK_URL_def lit_def)
  from at_most_two_attempts
    [of unreachable "lit ''post''" "lit ''/api/profile''" "JObj []" 0 "initial None"
      network_failure network_failure]
  show ?thesis
    by (simp add: unreachable_def isNetworkError_network_failure
        extractMessage_network_failure)
      (simp add: initial_None request_config_def urls)
qed


section \<open>The request URL\<close>

text \<open>
  C10, as stated: every relative path gives the active origin (without trailing slash)
  followed by the path prefixed by one slash. This fails for the empty path, which is
  not absolute: line 13 returns the origin itself, with no slash added.
\<close>

theorem empty_path_gives_bare_origin:
  "\<not> startsWith [] (lit ''http://'') \<and> \<not> startsWith [] (lit ''https://'') \<and>
   cfg_url (request_config (lit ''get'') [] JUndefined (initial None)) =
     lit ''http://localhost:5000'' \<and>
   cfg_url (request_config (lit ''get'') [] JUndefined (initial None)) \<noteq>
     lit ''http://localhost:5000'' @ lit ''/'' @ []"
  by (simp add: startsWith_def request_config_def makeUrl_def initial_None
      LOCAL_DEFAULT_URL_def lit_def)

text \<open>
  C10, amended: the first request of a call carries the URL \<open>makeUrl\<close> builds from the
  active origin. A path that starts with \<open>http://\<close> or \<open>https://\<close> is that URL, verbatim.
  Any other non-empty path gives the active origin with one trailing slash removed (if it
  has one), a slash, and the path without its leading slash (if it has one). The empty
  path gives the active origin unchanged.
\<close>

theorem request_url_verbatim_or_joined:
  "sent (snd (request net method path payload attempt s)) ! length (sent s) =
     request_config method path payload s \<and>
   cfg_url (request_config method path payload s) =
     (if path = [] then activeBaseUrl s
      else if startsWith path (lit ''http://'') \<or> startsWith path (lit ''https://'') then path
      else (if endsWith (activeBaseUrl s) (lit ''/'') then butlast (activeBaseUrl s)
            else activeBaseUrl s) @
           lit ''/'' @ (if startsWith path (lit ''/'') then tl path else path))"
  using makeUrl_cases [of "activeBaseUrl s" path]
  by (simp add: request_first_sent request_config_def)

theorem request_url_verbatim_or_joined_witness:
  "cfg_url (request_config (lit ''post'') (lit ''https://example.org/x'') JNull (initial None)) =
     lit ''https://example.org/x'' \<and>
   cfg_url (request_config (lit ''post'') (lit ''/natal-chart'') JNull
              \<lparr>activeBaseUrl = lit ''http://localhost:8000/'', sent = []\<rparr>) =
     lit ''http://localhost:8000/natal-chart'' \<and>
   cfg_url (request_config (lit ''post'') (lit ''natal-chart'') JNull (initial None)) =
     lit ''http://localhost:5000/natal-chart''"
proof -
  note t = request_url_verbatim_or_joined [THEN conjunct2]
  have a: "cfg_url (request_config (lit ''post'') (lit ''https://example.org/x'') JNull
                     (initial None)) = lit ''https://example.org/x''"
    using t [of "lit ''post''" "lit ''https://example.org/x''" JNull "initial None"]
    by (simp add: startsWith_def lit_def)
  have b: "cfg_url (request_config (lit ''post'') (lit ''/natal-chart'') JNull
              \<lparr>activeBaseUrl = lit ''http://localhost:8000/'', sent = []\<rparr>) =
     lit ''http://localhost:8000/natal-chart''"
    using t [of "lit ''post''" "lit ''/natal-chart''" JNull
        "\<lparr>activeBaseUrl = lit ''http://localhost:8000/'', sent = []\<rparr>"]
    by (simp add: startsWith_def endsWith_def lit_def)
  have c: "cfg_url (request_config (lit ''post'') (lit ''natal-chart'') JNull (initial None)) =
     lit ''http://localhost:5000/natal-chart''"
    using t [of "lit ''post''" "lit ''natal-chart''" JNull "initial None"]
    by (simp add: initial_None startsWith_def endsWith_def LOCAL_DEFAULT_URL_def lit_def)
  from a b c show ?thesis by blast
qed


section \<open>The active origin over a process lifetime\<close>

lemma request_keeps_fallback:
  "activeBaseUrl s = REMOTE_FALLBACK_URL \<Longrightarrow>
   activeBaseUrl (snd (request net m p d a s)) = REMOTE_FALLBACK_URL"
  using request_activeBaseUrl [of net m p d a s] by auto

lemma run_keeps_fallback:
  "activeBaseUrl s = REMOTE_FALLBACK_URL \<Longrightarrow>
   map activeBaseUrl (run net calls s) = replicate (length calls) REMOTE_FALLBACK_URL"
proof (induction calls arbitrary: s)
  case Nil
  then show ?case by simp
next
  case (Cons c calls)
  obtain m p d where c: "c = (m, p, d)" by (cases c)
  from Cons.prems have "activeBaseUrl (snd (request net m p d 0 s)) = REMOTE_FALLBACK_URL"
    by (rule request_keeps_fallback)
  with Cons.IH [of "snd (request net m p d 0 s)"] show ?case
    by (simp add: c Let_def)
qed

text \<open>The active origin after each call: the starting value for a while, then the
  fallback for ever.\<close>

lemma run_history:
  "\<exists>k\<le>length calls.
     map activeBaseUrl (run net calls s) =
       replicate k (activeBaseUrl s) @ replicate (length calls - k) REMOTE_FALLBACK_URL"
proof (induction calls arbitrary: s)
  case Nil
  then show ?case by simp
next
  case (Cons c calls)
  obtain m p d where c: "c = (m, p, d)" by (cases c)
  let ?s1 = "snd (request net m p d 0 s)"
  show ?case
  proof (cases "activeBaseUrl ?s1 = activeBaseUrl s")
    case True
    from Cons.IH [of ?s1] obtain k where k: "k \<le> length calls"
      "map activeBaseUrl (run net calls ?s1) =
         replicate k (activeBaseUrl ?s1) @ replicate (length calls - k) REMOTE_FALLBACK_URL"
      by blast
    with True have "Suc k \<le> length (c # calls) \<and>
      map activeBaseUrl (run net (c # calls) s) =
        replicate (Suc k) (activeBaseUrl s) @
        replicate (length (c # calls) - Suc k) REMOTE_FALLBACK_URL"
      by (simp add: c Let_def)
    then show ?thesis by blast
  next
    case False
    with request_activeBaseUrl [of net m p d 0 s]
    have fb: "activeBaseUrl ?s1 = REMOTE_FALLBACK_URL" by auto
    then have "map activeBaseUrl (run net calls ?s1) =
        replicate (length calls) REMOTE_FALLBACK_URL"
      by (rule run_keeps_fallback)
    with fb have "map activeBaseUrl (run net (c # calls) s) =
        replicate 0 (activeBaseUrl s) @
        replicate (length (c # calls) - 0) REMOTE_FALLBACK_URL"
      by (simp add: c Let_def)
    then show ?thesis by blast
  qed
qed

lemma makeUrl_fallback_prefix:
  assumes "\<not> startsWith path (lit ''http://'')" "\<not> startsWith path (lit ''https://'')"
  shows "startsWith (makeUrl REMOTE_FALLBACK_URL path) REMOTE_FALLBACK_URL"
  using assms
  by (simp add: makeUrl_cases [of REMOTE_FALLBACK_URL] fallback_no_trailing_slash
      startsWith_def)

text \<open>
  C2: the active origin starts as the configured value (the trimmed \<open>VITE_API_URL\<close>, or
  the local default, less one trailing slash). Over any sequence of calls, the active
  origin after each call is that starting value up to some call and the fallback origin
  after every later one: it changes at most once, only to the fallback, and never back.
  A call made while the active origin is the fallback issues exactly one request, whose
  URL is built from the fallback origin, and leaves the origin as it is; for a path that
  is not an absolute URL that URL starts with the fallback origin.
\<close>

theorem active_origin_switches_at_most_once:
  "(\<exists>k\<le>length calls.
      map activeBaseUrl (run net calls (initial env)) =
        replicate k (replace_trailing_slash (initialBase env)) @
        replicate (length calls - k) REMOTE_FALLBACK_URL) \<and>
   (activeBaseUrl s = REMOTE_FALLBACK_URL \<longrightarrow>
      snd (request net method path payload 0 s) =
        s\<lparr>sent := sent s @
             [\<lparr>cfg_method = method, cfg_url = makeUrl REMOTE_FALLBACK_URL path,
                cfg_data = payload\<rparr>]\<rparr>) \<and>
   (\<not> startsWith path (lit ''http://'') \<and> \<not> startsWith path (lit ''https://'') \<longrightarrow>
      startsWith (makeUrl REMOTE_FALLBACK_URL path) REMOTE_FALLBACK_URL)"
proof (intro conjI impI)
  from run_history [of calls net "initial env"]
  show "\<exists>k\<le>length calls.
      map activeBaseUrl (run net calls (initial env)) =
        replicate k (replace_trailing_slash (initialBase env)) @
        replicate (length calls - k) REMOTE_FALLBACK_URL"
    by (simp add: initial_def)
next
  assume fb: "activeBaseUrl s = REMOTE_FALLBACK_URL"
  with urls_differ have "0 \<noteq> (0::nat) \<or> activeBaseUrl s \<noteq> LOCAL_DEFAULT_URL" by simp
  from request_no_retry [OF this, of net "method" path payload] fb
  show "snd (request net method path payload 0 s) =
        s\<lparr>sent := sent s @
             [\<lparr>cfg_method = method, cfg_url = makeUrl REMOTE_FALLBACK_URL path,
                cfg_data = payload\<rparr>]\<rparr>"
    by (simp add: request_config_def)
next
  assume "\<not> startsWith path (lit ''http://'') \<and> \<not> startsWith path (lit ''https://'')"
  then show "startsWith (makeUrl REMOTE_FALLBACK_URL path) REMOTE_FALLBACK_URL"
    by (simp add: makeUrl_fallback_prefix)
qed

theorem active_origin_switches_at_most_once_witness:
  "map activeBaseUrl
     (run unreachable
        [(lit ''post'', lit ''/api/profile'', JObj []),
         (lit ''get'', lit ''/api/profile'', JUndefined)]
        (initial None)) = [REMOTE_FALLBACK_URL, REMOTE_FALLBACK_URL] \<and>
   (\<exists>k\<le>length [(lit ''post'', lit ''/api/profile'', JObj []),
                  (lit ''get'', lit ''/api/profile'', JUndefined)].
      map activeBaseUrl
        (run unreachable
           [(lit ''post'', lit ''/api/profile'', JObj []),
            (lit ''get'', lit ''/api/profile'', JUndefined)]
           (initial None)) =
        replicate k LOCAL_DEFAULT_URL @
        replicate
          (length [(lit ''post'', lit ''/api/profile'', JObj []),
                   (lit ''get'', lit ''/api/profile'', JUndefined)] - k)
          REMOTE_FALLBACK_URL) \<and>
   snd (request unreachable (lit ''get'') (lit ''/api/profile'') JUndefined 0
          \<lparr>activeBaseUrl = REMOTE_FALLBACK_URL, sent = []\<rparr>) =
     \<lparr>activeBaseUrl = REMOTE_FALLBACK_URL,
      sent = [\<lparr>cfg_method = lit ''get'',
               cfg_url = lit ''https://astrolog-ai.onrender.com/api/profile'',
               cfg_data = JUndefined\<rparr>]\<rparr> \<and>
   startsWith (makeUrl REMOTE_FALLBACK_URL (lit ''/api/profile'')) REMOTE_FALLBACK_URL"
proof -
  let ?calls = "[(lit ''post'', lit ''/api/profile'', JObj []),
                 (lit ''get'', lit ''/api/profile'', JUndefined)]"
  let ?fb = "\<lparr>activeBaseUrl = REMOTE_FALLBACK_URL, sent = []\<rparr>"
  note t = active_origin_switches_at_most_once
    [of ?calls unreachable None ?fb "lit ''get''" "lit ''/api/profile''" JUndefined]
  have url: "makeUrl REMOTE_FALLBACK_URL (lit ''/api/profile'') =
      lit ''https://astrolog-ai.onrender.com/api/profile''"
    by (simp add: makeUrl_def startsWith_def endsWith_def REMOTE_FALLBACK_URL_def lit_def)
  have rel: "\<not> startsWith (lit ''/api/profile'') (lit ''http://'')"
    "\<not> startsWith (lit ''/api/profile'') (lit ''https://'')"
    by (simp_all add: startsWith_def lit_def)
  have init: "replace_trailing_slash (initialBase None) = LOCAL_DEFAULT_URL"
    using initial_None by (simp add: initial_def)
  have first: "activeBaseUrl
      (snd (request unreachable (lit ''post'') (lit ''/api/profile'') (JObj []) 0
              (initial None))) = REMOTE_FALLBACK_URL"
    using request_retry
      [of unreachable "initial None" "lit ''post''" "lit ''/api/profile''" "JObj []"
        network_failure]
    by (simp add: unreachable_def isNetworkError_network_failure initial_None)
  then have hist: "map activeBaseUrl (run unreachable ?calls (initial None)) =
      [REMOTE_FALLBACK_URL, REMOTE_FALLBACK_URL]"
    by (simp add: Let_def request_keeps_fallback)
  from t [THEN conjunct1]
  have "\<exists>k\<le>length ?calls. map activeBaseUrl (run unreachable ?calls (initial None)) =
        replicate k LOCAL_DEFAULT_URL @ replicate (length ?calls - k) REMOTE_FALLBACK_URL"
    by (simp only: init)
  moreover from t [THEN conjunct2, THEN conjunct1]
  have "snd (request unreachable (lit ''get'') (lit ''/api/profile'')
      JUndefined 0 ?fb) =
     \<lparr>activeBaseUrl = REMOTE_FALLBACK_URL,
      sent = [\<lparr>cfg_method = lit ''get'',
               cfg_url = lit ''https://astrolog-ai.onrender.com/api/profile'',
               cfg_data = JUndefined\<rparr>]\<rparr>"
    by (simp add: url)
  moreover from t [THEN conjunct2, THEN conjunct2] rel
  have "startsWith (makeUrl REMOTE_FALLBACK_URL (lit ''/api/profile'')) REMOTE_FALLBACK_URL"
    by blast
  ultimately show ?thesis using hist by blast
qed


section \<open>Domain request builders\<close>



lemma post_hosted_only:
  assumes "\<not> startsWith path (lit ''http://'')" "\<not> startsWith path (lit ''https://'')"
  shows "post (hosted_only outcome) path payload (initial None) =
           (case outcome of
              Resolved r \<Rightarrow> Inr (resp_data r)
            | Rejected e \<Rightarrow> Inl (Error (extractMessage (Some e))),
            \<lparr>activeBaseUrl = REMOTE_FALLBACK_URL,
             sent = [\<lparr>cfg_method = lit ''post'', cfg_url = makeUrl LOCAL_DEFAULT_URL path,
                       cfg_data = payload\<rparr>,
                     \<lparr>cfg_method = lit ''post'', cfg_url = makeUrl REMOTE_FALLBACK_URL path,
                       cfg_data = payload\<rparr>]\<rparr>)"
proof -
  have local: "\<not> startsWith (makeUrl LOCAL_DEFAULT_URL path) REMOTE_FALLBACK_URL"
  proof (cases "path = []")
    case True
    then show ?thesis
      by (simp add: makeUrl_def startsWith_def LOCAL_DEFAULT_URL_def REMOTE_FALLBACK_URL_def
          lit_def)
  next
    case False
    with assms show ?thesis
      by (simp add: makeUrl_cases [of LOCAL_DEFAULT_URL] local_no_trailing_slash
          not_startsWith_local_append)
  qed
  have first: "hosted_only outcome (length (sent (initial None)))
      (request_config (lit ''post'') path payload (initial None)) = Rejected network_failure"
    using local by (simp add: hosted_only_def request_config_def initial_None)
  have second: "hosted_only outcome (Suc (length (sent (initial None))))
      (request_config (lit ''post'') path payload
         (initial None\<lparr>activeBaseUrl := REMOTE_FALLBACK_URL\<rparr>)) = outcome"
    using assms by (simp add: hosted_only_def request_config_def makeUrl_fallback_prefix)
  from request_retry
    [of "hosted_only outcome" "initial None" "lit ''post''" path payload network_failure]
    first second isNetworkError_network_failure
  show ?thesis
    by (simp add: post_def initial_None request_config_def split: axios_outcome.splits)
qed

lemma relative_routes:
  "\<not> startsWith (lit ''/chat/message'') (lit ''http://'')"
  "\<not> startsWith (lit ''/chat/message'') (lit ''https://'')"
  "\<not> startsWith (lit ''/interpretation'') (lit ''http://'')"
  "\<not> startsWith (lit ''/interpretation'') (lit ''https://'')"
  by (simp_all add: startsWith_def lit_def)

text \<open>
  C7: \<open>sendChatMessage\<close> never throws. When the underlying \<open>post\<close> throws it returns the
  fixed apology string; when the \<open>post\<close> returns \<open>null\<close> or \<open>undefined\<close>, reading \<open>reply\<close>
  throws inside the \<open>try\<close> and the apology is returned as well; otherwise it returns the
  \<open>reply\<close> property of the response.
\<close>

theorem sendChatMessage_never_throws:
  "(\<exists>reply. fst (sendChatMessage net message chartData s) = Inr reply) \<and>
   (fst (post net (lit ''/chat/message'')
           (JObj [(lit ''message'', message), (lit ''chart'', chartData)]) s) = Inl err \<longrightarrow>
      fst (sendChatMessage net message chartData s) = Inr (JStr CHAT_APOLOGY)) \<and>
   (fst (post net (lit ''/chat/message'')
           (JObj [(lit ''message'', message), (lit ''chart'', chartData)]) s) = Inr response \<longrightarrow>
      fst (sendChatMessage net message chartData s) =
        (if response = JNull \<or> response = JUndefined then Inr (JStr CHAT_APOLOGY)
         else Inr (get_opt response (lit ''reply''))))"
proof -
  obtain res s' where p: "post net (lit ''/chat/message'')
      (JObj [(lit ''message'', message), (lit ''chart'', chartData)]) s = (res, s')"
    by (cases "post net (lit ''/chat/message'')
      (JObj [(lit ''message'', message), (lit ''chart'', chartData)]) s")
  show ?thesis
  proof (cases res)
    case (Inl e)
    with p show ?thesis by (simp add: sendChatMessage_def)
  next
    case (Inr v)
    with p show ?thesis by (cases v) (auto simp: sendChatMessage_def)
  qed
qed

theorem sendChatMessage_never_throws_witness:
  "fst (sendChatMessage unreachable (JStr (lit ''hello'')) JNull (initial None)) =
     Inr (JStr CHAT_APOLOGY) \<and>
   fst (sendChatMessage (hosted_only (ok JNull)) (JStr (lit ''hello'')) JNull (initial None)) =
     Inr (JStr CHAT_APOLOGY) \<and>
   fst (sendChatMessage (hosted_only (ok (JObj [(lit ''reply'', JStr (lit ''hi''))])))
          (JStr (lit ''hello'')) JNull (initial None)) = Inr (JStr (lit ''hi''))"
proof -
  let ?payload = "JObj [(lit ''message'', JStr (lit ''hello'')), (lit ''chart'', JNull)]"
  have "fst (post unreachable (lit ''/chat/message'') ?payload (initial None)) =
      Inl (Error (JStr (lit ''Network Error'')))"
    using request_retry
      [of unreachable "initial None" "lit ''post''" "lit ''/chat/message''" ?payload
        network_failure]
    by (simp add: post_def unreachable_def isNetworkError_network_failure initial_None
        extractMessage_network_failure)
  with sendChatMessage_never_throws
    [of unreachable "JStr (lit ''hello'')" JNull "initial None"
      "Error (JStr (lit ''Network Error''))"]
  have a: "fst (sendChatMessage unreachable (JStr (lit ''hello'')) JNull (initial None)) =
      Inr (JStr CHAT_APOLOGY)"
    by blast
  have "fst (post (hosted_only (ok body)) (lit ''/chat/message'') ?payload (initial None)) =
      Inr body" for body
    by (simp add: post_hosted_only relative_routes ok_def)
  with sendChatMessage_never_throws
      [of "hosted_only (ok JNull)" "JStr (lit ''hello'')" JNull "initial None" _ JNull]
    sendChatMessage_never_throws
      [of "hosted_only (ok (JObj [(lit ''reply'', JStr (lit ''hi''))]))"
        "JStr (lit ''hello'')" JNull "initial None" _
        "JObj [(lit ''reply'', JStr (lit ''hi''))]"]
  have "fst (sendChatMessage (hosted_only (ok JNull)) (JStr (lit ''hello'')) JNull
          (initial None)) = Inr (JStr CHAT_APOLOGY)"
    and "fst (sendChatMessage (hosted_only (ok (JObj [(lit ''reply'', JStr (lit ''hi''))])))
          (JStr (lit ''hello'')) JNull (initial None)) = Inr (JStr (lit ''hi''))"
    by simp_all
  with a show ?thesis by blast
qed


lemma getInterpretation_snd:
  "snd (getInterpretation JSON_parse net chartData s) =
     snd (post net (lit ''/interpretation'')
            (JObj [(lit ''chart'', prepareChart JSON_parse chartData),
                   (lit ''chart_data'', prepareChart JSON_parse chartData)]) s)"
  by (simp add: getInterpretation_def Let_def split: prod.splits sum.splits)

text \<open>
  C8: a string argument that \<open>JSON.parse\<close> rejects is replaced by \<open>null\<close>, and the call
  goes on exactly as the call with a \<open>null\<close> chart does: its first request is the
  \<open>post\<close> to \<open>/interpretation\<close> whose payload holds \<open>null\<close> in both \<open>chart\<close> and
  \<open>chart_data\<close>.
\<close>

theorem unparseable_chart_becomes_null:
  assumes "JSON_parse str = None"
  shows "prepareChart JSON_parse (JStr str) = JNull \<and>
         getInterpretation JSON_parse net (JStr str) s =
           getInterpretation JSON_parse net JNull s \<and>
         sent (snd (getInterpretation JSON_parse net (JStr str) s)) ! length (sent s) =
           \<lparr>cfg_method = lit ''post'',
            cfg_url = makeUrl (activeBaseUrl s) (lit ''/interpretation''),
            cfg_data = JObj [(lit ''chart'', JNull), (lit ''chart_data'', JNull)]\<rparr>"
proof -
  from assms have p: "prepareChart JSON_parse (JStr str) = JNull"
    by (simp add: prepareChart_def)
  have q: "prepareChart JSON_parse JNull = JNull"
    by (simp add: prepareChart_def)
  from p q have "getInterpretation JSON_parse net (JStr str) s =
      getInterpretation JSON_parse net JNull s"
    by (simp add: getInterpretation_def)
  moreover have "sent (snd (getInterpretation JSON_parse net (JStr str) s)) ! length (sent s) =
      request_config (lit ''post'') (lit ''/interpretation'')
        (JObj [(lit ''chart'', JNull), (lit ''chart_data'', JNull)]) s"
    by (simp add: getInterpretation_snd p post_def request_first_sent)
  ultimately show ?thesis using p by (simp add: request_config_def)
qed

theorem unparseable_chart_becomes_null_witness:
  "parse_null_only (lit ''{bad'') = None \<and>
   prepareChart parse_null_only (JStr (lit ''{bad'')) = JNull \<and>
   sent (snd (getInterpretation parse_null_only unreachable (JStr (lit ''{bad''))
                (initial None))) ! 0 =
     \<lparr>cfg_method = lit ''post'', cfg_url = lit ''http://localhost:5000/interpretation'',
      cfg_data = JObj [(lit ''chart'', JNull), (lit ''chart_data'', JNull)]\<rparr>"
proof -
  have h: "parse_null_only (lit ''{bad'') = None"
    by (simp add: parse_null_only_def)
  have url: "makeUrl LOCAL_DEFAULT_URL (lit ''/interpretation'') =
      lit ''http://localhost:5000/interpretation''"
    by (simp add: makeUrl_def startsWith_def endsWith_def LOCAL_DEFAULT_URL_def lit_def)
  note t = unparseable_chart_becomes_null
      [of parse_null_only "lit ''{bad''" unreachable "initial None", OF h]
  from t have a: "prepareChart parse_null_only (JStr (lit ''{bad'')) = JNull"
    by (rule conjunct1)
  from t have "sent (snd (getInterpretation parse_null_only unreachable (JStr (lit ''{bad''))
      (initial None))) ! length (sent (initial None)) =
     \<lparr>cfg_method = lit ''post'',
      cfg_url = makeUrl (activeBaseUrl (initial None)) (lit ''/interpretation''),
      cfg_data = JObj [(lit ''chart'', JNull), (lit ''chart_data'', JNull)]\<rparr>"
    by (rule conjunct2 [THEN conjunct2])
  then have "sent (snd (getInterpretation parse_null_only unreachable (JStr (lit ''{bad''))
      (initial None))) ! 0 =
     \<lparr>cfg_method = lit ''post'', cfg_url = lit ''http://localhost:5000/interpretation'',
      cfg_data = JObj [(lit ''chart'', JNull), (lit ''chart_data'', JNull)]\<rparr>"
    by (simp add: initial_None url)
  with h a show ?thesis by blast
qed



end
